theory Spec2Isabelle
  imports Main "HOL-Library.AList"
begin

section \<open>JavaScript values\<close>

text \<open>
  The values that flow through \<^verbatim>\<open>ConversationStore.js\<close>: action payloads, parsed JSON
  bodies and the fields of the store. A JavaScript object is the list of its own properties
  in insertion order. A number \<open>JNum t p\<close> is given by the two things the store can see
  of it: \<open>t\<close>, whether it is truthy (neither zero nor \<^verbatim>\<open>NaN\<close>), and \<open>p\<close>, the
  string JavaScript prints for it. A function \<open>JFun p\<close> is given by the string
  JavaScript prints for it.
\<close>

datatype jsval =
    JUndefined
  | JNull
  | JBool bool
  | JNum bool string
  | JStr string
  | JArr "jsval list"
  | JObj "(string \<times> jsval) list"
  | JFun string

text \<open>What \<^verbatim>\<open>if (v)\<close>, \<^verbatim>\<open>v && w\<close> and \<^verbatim>\<open>!v\<close> test.\<close>

fun truthy :: "jsval \<Rightarrow> bool" where
  "truthy JUndefined = False"
| "truthy JNull = False"
| "truthy (JBool b) = b"
| "truthy (JNum t p) = t"
| "truthy (JStr s) = (s \<noteq> [])"
| "truthy (JArr xs) = True"
| "truthy (JObj kvs) = True"
| "truthy (JFun p) = True"

fun join_comma :: "string list \<Rightarrow> string" where
  "join_comma [] = []"
| "join_comma [x] = x"
| "join_comma (x # y # ys) = x @ '','' @ join_comma (y # ys)"

text \<open>
  String conversion, as applied to the right operand of \<^verbatim>\<open>string + v\<close> and to the key
  of \<^verbatim>\<open>obj[v]\<close>. An array joins its elements with commas, \<^verbatim>\<open>null\<close> and
  \<^verbatim>\<open>undefined\<close> elements giving the empty string. An object prints as
  \<^verbatim>\<open>[object Object]\<close>, which is what an object does that has no
  \<^verbatim>\<open>toString\<close> property of its own.
\<close>

fun to_string :: "jsval \<Rightarrow> string" where
  "to_string JUndefined = ''undefined''"
| "to_string JNull = ''null''"
| "to_string (JBool b) = (if b then ''true'' else ''false'')"
| "to_string (JNum t p) = p"
| "to_string (JStr s) = s"
| "to_string (JArr xs) =
     join_comma (map (\<lambda>x. if x = JUndefined then [] else if x = JNull then [] else to_string x) xs)"
| "to_string (JObj kvs) = ''[object Object]''"
| "to_string (JFun p) = p"

datatype error =
    Error string
  | TypeError string
  | SyntaxError string

text \<open>
  Reading \<^verbatim>\<open>v.name\<close> for one of the names the store reads from a parsed body
  (\<^verbatim>\<open>conversationId\<close>, \<^verbatim>\<open>topQuestions\<close>, \<^verbatim>\<open>messageId\<close>, \<^verbatim>\<open>message\<close>,
  \<^verbatim>\<open>responses\<close>): a \<^verbatim>\<open>TypeError\<close> on \<^verbatim>\<open>null\<close> and \<^verbatim>\<open>undefined\<close>, the
  property of an object, \<^verbatim>\<open>undefined\<close> where there is none.
\<close>

fun get_prop :: "jsval \<Rightarrow> string \<Rightarrow> error + jsval" where
  "get_prop JUndefined name = Inl (TypeError name)"
| "get_prop JNull name = Inl (TypeError name)"
| "get_prop (JObj kvs) name = Inr (case map_of kvs name of None \<Rightarrow> JUndefined | Some v \<Rightarrow> v)"
| "get_prop v name = Inr JUndefined"

text \<open>
  The same read where it cannot throw: a truthy value is neither \<^verbatim>\<open>null\<close> nor
  \<^verbatim>\<open>undefined\<close> (lemma \<open>get_prop_truthy\<close> below).
\<close>

definition read_prop :: "jsval \<Rightarrow> string \<Rightarrow> jsval" where
  "read_prop v name = (case get_prop v name of Inl e \<Rightarrow> JUndefined | Inr x \<Rightarrow> x)"

section \<open>The store\<close>

text \<open>\<^verbatim>\<open>constants.js\<close> is not part of the sources; its three values are parameters.\<close>

record constants =
  conversationUrl :: string
  feedbackUrl :: string
  refinementQueryType :: string

record conversation =
  conversationId :: jsval
  message :: jsval
  messageId :: jsval
  responses :: jsval
  topQuestions :: jsval

text \<open>An entry of the question cache, \<^verbatim>\<open>{message: "", responses: []}\<close>.\<close>

record cachedMessage =
  cached_message :: jsval
  cached_responses :: jsval

text \<open>
  The store object \<^verbatim>\<open>self\<close>. \<open>self_topQuestions\<close> is the property
  \<^verbatim>\<open>self.topQuestions\<close> of the store itself, which \<^verbatim>\<open>GET_TOP_QUESTIONS\<close> reads;
  it is not the field \<^verbatim>\<open>self.conversation.topQuestions\<close>.
\<close>

record store =
  conversation :: conversation
  questionHistory :: "jsval list"
  questionCache :: "(string \<times> cachedMessage) list"
  self_topQuestions :: jsval

text \<open>The object \<^verbatim>\<open>{message: m, responses: r}\<close> of an entry.\<close>

definition entry_value :: "cachedMessage \<Rightarrow> jsval" where
  "entry_value cm = JObj [(''message'', cached_message cm), (''responses'', cached_responses cm)]"

text \<open>
  What every object inherits from \<^verbatim>\<open>Object.prototype\<close>: eleven functions, and under
  \<^verbatim>\<open>__proto__\<close> the prototype itself, an object with none of the properties the
  store reads.
\<close>

definition Object_prototype_functions :: "string list" where
  "Object_prototype_functions =
     [''constructor'', ''__defineGetter__'', ''__defineSetter__'', ''hasOwnProperty'',
      ''__lookupGetter__'', ''__lookupSetter__'', ''isPrototypeOf'', ''propertyIsEnumerable'',
      ''toString'', ''valueOf'', ''toLocaleString'']"

definition native_function :: "string \<Rightarrow> jsval" where
  "native_function name = JFun (''function '' @ name @ ''() { [native code] }'')"

definition Object_prototype_get :: "string \<Rightarrow> jsval" where
  "Object_prototype_get k =
     (if k = ''__proto__'' then JObj []
      else if k = ''constructor'' then native_function ''Object''
      else if k \<in> set Object_prototype_functions then native_function k
      else JUndefined)"

text \<open>
  \<^verbatim>\<open>self.questionCache[k]\<close>. The cache starts as \<^verbatim>\<open>{}\<close> and is written only
  by \<^verbatim>\<open>self.questionCache[k] = {message: ..., responses: ...}\<close>; \<open>questionCache\<close>
  lists these writes by key, a later write replacing an earlier one. A write under any key
  but \<^verbatim>\<open>__proto__\<close> makes a property of the cache itself. A write under
  \<^verbatim>\<open>__proto__\<close> makes the entry the prototype of the cache, between the cache and
  \<^verbatim>\<open>Object.prototype\<close>. A read finds the cache's own property, else under
  \<^verbatim>\<open>__proto__\<close> the prototype, else a property of an entry made prototype, else
  what \<^verbatim>\<open>Object.prototype\<close> has, else \<^verbatim>\<open>undefined\<close>.
\<close>

definition cache_get :: "(string \<times> cachedMessage) list \<Rightarrow> string \<Rightarrow> jsval" where
  "cache_get cache k =
     (case map_of cache k of
        Some cm \<Rightarrow> entry_value cm
      | None \<Rightarrow>
          (case map_of cache ''__proto__'' of
             None \<Rightarrow> Object_prototype_get k
           | Some p \<Rightarrow>
               if k = ''message'' then cached_message p
               else if k = ''responses'' then cached_responses p
               else Object_prototype_get k))"

definition ConversationStore :: store where
  "ConversationStore =
     \<lparr>conversation = \<lparr>conversationId = JStr [], message = JStr [], messageId = JStr [],
                      responses = JArr [], topQuestions = JArr []\<rparr>,
      questionHistory = [],
      questionCache = [],
      self_topQuestions = JUndefined\<rparr>"

section \<open>Events, requests and responses\<close>

datatype broadcast =
    CONVERSATION_STARTED_BROADCAST
  | TOP_QUESTIONS_BROADCAST
  | ASKING_QUESTION_BROADCAST
  | ANSWER_RECEIVED_BROADCAST
  | ALTERNATIVE_QUESTION_BROADCAST
  | SERVER_ERROR_BROADCAST
  | NONE_OF_THE_ABOVE_CLICKED_BROADCAST
  | NEGATIVE_FEEDBACK_RECEIVED_BROADCAST
  | POSITIVE_FEEDBACK_RECEIVED_BROADCAST
  | UPDATE_REFINEMENT_QUESTIONS_BROADCAST

datatype payload =
    NoPayload
  | ConversationPayload conversation
  | ValuePayload jsval
  | ErrorPayload error

text \<open>
  A request handed to \<^verbatim>\<open>fetch\<close>; \<open>body\<close> is the value handed to
  \<^verbatim>\<open>JSON.stringify\<close>, \<open>None\<close> when the request has no body.
\<close>

record request =
  url :: string
  http_method :: string
  headers :: "(string \<times> string) list"
  body :: "jsval option"

text \<open>
  What the store does to the outside, in the order it does it. \<open>Trigger b p s\<close> is
  \<^verbatim>\<open>self.trigger(b, p)\<close> called when the store is \<open>s\<close>: listeners run inside the
  call, so \<open>s\<close> is the state they see.
\<close>

datatype event =
    Trigger broadcast payload store
  | Fetch request

text \<open>
  A response; \<open>json\<close> is what the promise of \<^verbatim>\<open>response.json()\<close> settles to.
  A fetch settles to \<open>Inl\<close> (rejected) or \<open>Inr\<close> (a response).
\<close>

record response =
  status :: int
  statusText :: string
  json :: "error + jsval"

type_synonym fetch_result = "error + response"

text \<open>The promise chain a handler leaves behind when it returns.\<close>

datatype pending =
    AwaitConversationStart
  | AwaitAnswer
  | AwaitFeedback
  | AwaitTopQuestions

type_synonym outcome = "store \<times> event list \<times> pending option"

definition json_headers :: "(string \<times> string) list" where
  "json_headers = [(''Content-Type'', ''application/json'')]"

definition parseJson :: "response \<Rightarrow> error + jsval" where
  "parseJson response = json response"

definition analyzeStatus :: "response \<Rightarrow> error + response" where
  "analyzeStatus response =
     (if status response = 200 then Inr response else Inl (Error (statusText response)))"

text \<open>\<^verbatim>\<open>p.then(f)\<close> for a promise settled to \<open>p\<close>: a rejection skips \<open>f\<close>.\<close>

definition then_p :: "error + 'a \<Rightarrow> ('a \<Rightarrow> error + 'b) \<Rightarrow> error + 'b" where
  "then_p p f = (case p of Inl e \<Rightarrow> Inl e | Inr x \<Rightarrow> f x)"

text \<open>\<^verbatim>\<open>.catch(function(error) { self.trigger(action.SERVER_ERROR_BROADCAST, error); })\<close>\<close>

definition catch_error :: "error \<Rightarrow> store \<Rightarrow> store \<times> event list" where
  "catch_error e s = (s, [Trigger SERVER_ERROR_BROADCAST (ErrorPayload e) s])"

text \<open>
  Evaluating, while the store is \<open>s\<close>, an expression that may throw: a throw leaves
  the enclosing function at once, with the assignments made so far and nothing triggered.
\<close>

definition reading ::
  "error + jsval \<Rightarrow> store \<Rightarrow> (jsval \<Rightarrow> error option \<times> store \<times> event list)
     \<Rightarrow> error option \<times> store \<times> event list" where
  "reading r s k = (case r of Inl e \<Rightarrow> (Some e, s, []) | Inr v \<Rightarrow> k v)"

text \<open>
  \<^verbatim>\<open>p.then(handler).catch(...)\<close> for a promise settled to \<open>p\<close>: the catch receives
  the rejection of \<open>p\<close> or what \<open>handler\<close> throws.
\<close>

definition then_catch ::
  "(jsval \<Rightarrow> store \<Rightarrow> error option \<times> store \<times> event list) \<Rightarrow> error + jsval
     \<Rightarrow> store \<Rightarrow> store \<times> event list" where
  "then_catch handler p s =
     (case p of
        Inl e \<Rightarrow> catch_error e s
      | Inr data \<Rightarrow>
          (case handler data s of
             (None, s', evs) \<Rightarrow> (s', evs)
           | (Some e, s', evs) \<Rightarrow> (fst (catch_error e s'), evs @ snd (catch_error e s'))))"

section \<open>CONVERSATION_START\<close>

definition on_CONVERSATION_START :: "constants \<Rightarrow> store \<Rightarrow> outcome" where
  "on_CONVERSATION_START c s =
     (s,
      [Fetch \<lparr>url = conversationUrl c, http_method = ''post'', headers = json_headers, body = None\<rparr>],
      Some AwaitConversationStart)"

definition CONVERSATION_START_data ::
  "jsval \<Rightarrow> store \<Rightarrow> error option \<times> store \<times> event list" where
  "CONVERSATION_START_data data s =
     reading (get_prop data ''conversationId'') s (\<lambda>cid.
       let s1 = s\<lparr>conversation := (conversation s)\<lparr>conversationId := cid\<rparr>\<rparr> in
       reading (get_prop data ''topQuestions'') s1 (\<lambda>tq.
         let s2 = s1\<lparr>conversation := (conversation s1)\<lparr>topQuestions := tq\<rparr>\<rparr> in
         (None, s2,
          [Trigger CONVERSATION_STARTED_BROADCAST (ConversationPayload (conversation s2)) s2,
           Trigger TOP_QUESTIONS_BROADCAST (ValuePayload (topQuestions (conversation s2))) s2])))"

definition CONVERSATION_START_response :: "fetch_result \<Rightarrow> store \<Rightarrow> store \<times> event list" where
  "CONVERSATION_START_response r s =
     then_catch CONVERSATION_START_data (then_p (then_p r analyzeStatus) parseJson) s"

section \<open>ASK_QUESTION\<close>

text \<open>The payload of \<^verbatim>\<open>ASK_QUESTION\<close>, \<^verbatim>\<open>SET_CURRENT_QUESTION\<close> and
  \<^verbatim>\<open>UPDATE_REFINEMENT_QUESTIONS\<close>; a property that is not there reads \<^verbatim>\<open>undefined\<close>.\<close>

record question =
  q_messageId :: jsval
  q_message :: jsval
  q_referrer :: jsval

definition requestBody :: "constants \<Rightarrow> question \<Rightarrow> store \<Rightarrow> (string \<times> jsval) list" where
  "requestBody c q s =
     (let b0 = [];
          b1 = (if truthy (q_message q) then AList.update ''message'' (q_message q) b0 else b0);
          b2 = (if truthy (q_referrer q) then
                  (let r0 = [];
                       r1 = AList.update ''source'' (q_referrer q) r0;
                       r2 = (if q_referrer q = JStr (refinementQueryType c)
                             then AList.update ''messageId'' (messageId (conversation s)) r1
                             else r1)
                   in AList.update ''referrer'' (JObj r2) b1)
                else b1)
      in b2)"

text \<open>
  The three assignments of the branch \<^verbatim>\<open>if (messageId && cachedMessage)\<close>; there
  \<open>cached\<close> is truthy and its properties are read without a throw.
\<close>

definition recall :: "jsval \<Rightarrow> jsval \<Rightarrow> store \<Rightarrow> store" where
  "recall mid cached s =
     s\<lparr>conversation := (conversation s)
          \<lparr>responses := read_prop cached ''responses'', messageId := mid,
           message := read_prop cached ''message''\<rparr>\<rparr>"

definition on_ASK_QUESTION :: "constants \<Rightarrow> question \<Rightarrow> store \<Rightarrow> outcome" where
  "on_ASK_QUESTION c q s =
     (let asking = Trigger ASKING_QUESTION_BROADCAST NoPayload s;
          mid = q_messageId q;
          cached = cache_get (questionCache s) (to_string mid)
      in if truthy mid \<and> truthy cached then
           (let s' = recall mid cached s in
            (s',
             [asking,
              Trigger ANSWER_RECEIVED_BROADCAST (ConversationPayload (conversation s')) s',
              Trigger ALTERNATIVE_QUESTION_BROADCAST (ConversationPayload (conversation s')) s'],
             None))
         else
           (s,
            [asking,
             Fetch \<lparr>url = conversationUrl c @ to_string (conversationId (conversation s)),
                    http_method = ''post'', headers = json_headers,
                    body = Some (JObj (requestBody c q s))\<rparr>],
            Some AwaitAnswer))"

definition ASK_QUESTION_data ::
  "jsval \<Rightarrow> store \<Rightarrow> error option \<times> store \<times> event list" where
  "ASK_QUESTION_data data s =
     reading (get_prop data ''messageId'') s (\<lambda>oldMessageId.
       let s1 = s\<lparr>questionHistory := questionHistory s @ [oldMessageId]\<rparr> in
       reading (get_prop data ''message'') s1 (\<lambda>m.
       reading (get_prop data ''responses'') s1 (\<lambda>rs.
         let s2 = s1\<lparr>questionCache :=
                        AList.update (to_string oldMessageId)
                          \<lparr>cached_message = m, cached_responses = rs\<rparr> (questionCache s1)\<rparr> in
         reading (get_prop data ''responses'') s2 (\<lambda>rs'.
           let s3 = s2\<lparr>conversation := (conversation s2)\<lparr>responses := rs'\<rparr>\<rparr> in
           reading (get_prop data ''messageId'') s3 (\<lambda>mid'.
             let s4 = s3\<lparr>conversation := (conversation s3)\<lparr>messageId := mid'\<rparr>\<rparr> in
             reading (get_prop data ''message'') s4 (\<lambda>m'.
               let s5 = s4\<lparr>conversation := (conversation s4)\<lparr>message := m'\<rparr>\<rparr> in
               (None, s5,
                [Trigger ANSWER_RECEIVED_BROADCAST (ConversationPayload (conversation s5)) s5,
                 Trigger ALTERNATIVE_QUESTION_BROADCAST
                   (ConversationPayload (conversation s5)) s5])))))))"

definition ASK_QUESTION_response :: "fetch_result \<Rightarrow> store \<Rightarrow> store \<times> event list" where
  "ASK_QUESTION_response r s =
     then_catch ASK_QUESTION_data (then_p (then_p r analyzeStatus) parseJson) s"

section \<open>Feedback\<close>

definition postData :: "jsval \<Rightarrow> string \<Rightarrow> store \<Rightarrow> jsval" where
  "postData mid act s =
     JObj [(''conversationId'', conversationId (conversation s)),
           (''messageId'', mid),
           (''action'', JStr act)]"

definition feedback_request :: "constants \<Rightarrow> jsval \<Rightarrow> request" where
  "feedback_request c pd =
     \<lparr>url = feedbackUrl c, http_method = ''post'', headers = json_headers, body = Some pd\<rparr>"

text \<open>The \<^verbatim>\<open>then\<close> function of the four feedback calls, the same text in each.\<close>

definition feedback_status :: "response \<Rightarrow> error + unit" where
  "feedback_status response =
     (if status response < 200 \<or> status response \<ge> 300
      then Inl (Error (statusText response)) else Inr ())"

definition feedback_response :: "fetch_result \<Rightarrow> store \<Rightarrow> store \<times> event list" where
  "feedback_response r s =
     (case then_p r feedback_status of Inl e \<Rightarrow> catch_error e s | Inr u \<Rightarrow> (s, []))"

definition on_NONE_OF_THE_ABOVE_CLICKED :: "constants \<Rightarrow> store \<Rightarrow> outcome" where
  "on_NONE_OF_THE_ABOVE_CLICKED c s =
     (s,
      [Trigger NONE_OF_THE_ABOVE_CLICKED_BROADCAST NoPayload s,
       Fetch (feedback_request c
                (postData (messageId (conversation s)) ''NO_HELPFUL_REFINEMENTS'' s))],
      Some AwaitFeedback)"

definition on_NEGATIVE_FEEDBACK_GIVEN :: "constants \<Rightarrow> store \<Rightarrow> outcome" where
  "on_NEGATIVE_FEEDBACK_GIVEN c s =
     (s,
      [Trigger NEGATIVE_FEEDBACK_RECEIVED_BROADCAST NoPayload s,
       Fetch (feedback_request c (postData (messageId (conversation s)) ''UNHELPFUL'' s))],
      Some AwaitFeedback)"

definition on_POSITIVE_FEEDBACK_GIVEN :: "constants \<Rightarrow> store \<Rightarrow> outcome" where
  "on_POSITIVE_FEEDBACK_GIVEN c s =
     (s,
      [Trigger POSITIVE_FEEDBACK_RECEIVED_BROADCAST NoPayload s,
       Fetch (feedback_request c (postData (messageId (conversation s)) ''HELPFUL'' s))],
      Some AwaitFeedback)"

definition on_FORUM_BUTTON_PRESSED :: "constants \<Rightarrow> jsval \<Rightarrow> store \<Rightarrow> outcome" where
  "on_FORUM_BUTTON_PRESSED c mid s =
     (let postMessageId = (if truthy mid then mid else messageId (conversation s)) in
      (s,
       [Fetch (feedback_request c (postData postMessageId ''FORUM_REDIRECT'' s))],
       Some AwaitFeedback))"

section \<open>Recalling a cached question\<close>

definition on_SET_CURRENT_QUESTION :: "question \<Rightarrow> store \<Rightarrow> outcome" where
  "on_SET_CURRENT_QUESTION q s =
     (let mid = q_messageId q;
          cached = cache_get (questionCache s) (to_string mid)
      in if truthy mid \<and> truthy cached then (recall mid cached s, [], None)
         else (s, [], None))"

definition on_UPDATE_REFINEMENT_QUESTIONS :: "question \<Rightarrow> store \<Rightarrow> outcome" where
  "on_UPDATE_REFINEMENT_QUESTIONS q s =
     (let mid = q_messageId q;
          cached = cache_get (questionCache s) (to_string mid)
      in if truthy mid \<and> truthy cached then
           (s,
            [Trigger UPDATE_REFINEMENT_QUESTIONS_BROADCAST
               (ValuePayload (JObj [(''responses'', read_prop cached ''responses''),
                                    (''messageId'', mid),
                                    (''message'', read_prop cached ''message'')])) s],
            None)
         else (s, [], None))"

definition on_GET_ALTERNATIVE_QUESTIONS :: "store \<Rightarrow> outcome" where
  "on_GET_ALTERNATIVE_QUESTIONS s =
     (s, [Trigger ALTERNATIVE_QUESTION_BROADCAST (ConversationPayload (conversation s)) s], None)"

section \<open>GET_TOP_QUESTIONS\<close>

text \<open>
  The second test reads \<^verbatim>\<open>self.conversation\<close>, an object and so true, and
  \<^verbatim>\<open>self.topQuestions\<close>, the property of the store.
\<close>

definition on_GET_TOP_QUESTIONS :: "constants \<Rightarrow> store \<Rightarrow> outcome" where
  "on_GET_TOP_QUESTIONS c s =
     (if truthy (conversationId (conversation s)) \<and> \<not> truthy (topQuestions (conversation s)) then
        (s,
         [Fetch \<lparr>url = conversationUrl c @ to_string (conversationId (conversation s))
                         @ ''/topQuestions'',
                 http_method = ''get'', headers = json_headers, body = None\<rparr>],
         Some AwaitTopQuestions)
      else if True \<and> truthy (self_topQuestions s) then
        (s,
         [Trigger TOP_QUESTIONS_BROADCAST (ValuePayload (topQuestions (conversation s))) s],
         None)
      else (s, [], None))"

definition GET_TOP_QUESTIONS_data ::
  "jsval \<Rightarrow> store \<Rightarrow> error option \<times> store \<times> event list" where
  "GET_TOP_QUESTIONS_data data s =
     reading (get_prop data ''topQuestions'') s (\<lambda>tq.
       let s1 = s\<lparr>conversation := (conversation s)\<lparr>topQuestions := tq\<rparr>\<rparr> in
       (None, s1,
        [Trigger TOP_QUESTIONS_BROADCAST (ValuePayload (topQuestions (conversation s1))) s1]))"

definition GET_TOP_QUESTIONS_response :: "fetch_result \<Rightarrow> store \<Rightarrow> store \<times> event list" where
  "GET_TOP_QUESTIONS_response r s =
     then_catch GET_TOP_QUESTIONS_data (then_p (then_p r analyzeStatus) parseJson) s"

section \<open>A handler and its promise chain\<close>

fun settle :: "pending \<Rightarrow> fetch_result \<Rightarrow> store \<Rightarrow> store \<times> event list" where
  "settle AwaitConversationStart r s = CONVERSATION_START_response r s"
| "settle AwaitAnswer r s = ASK_QUESTION_response r s"
| "settle AwaitFeedback r s = feedback_response r s"
| "settle AwaitTopQuestions r s = GET_TOP_QUESTIONS_response r s"

text \<open>
  The whole execution of one action: the handler runs to its end, and when it has left a
  fetch behind, the fetch settles to \<open>r\<close> and the chain runs on the store the handler
  left. The events of the chain come after those of the handler.
\<close>

definition complete :: "outcome \<Rightarrow> fetch_result \<Rightarrow> store \<times> event list" where
  "complete out r =
     (case out of
        (s, evs, None) \<Rightarrow> (s, evs)
      | (s, evs, Some p) \<Rightarrow> (fst (settle p r s), evs @ snd (settle p r s)))"

fun broadcasts :: "event list \<Rightarrow> broadcast list" where
  "broadcasts [] = []"
| "broadcasts (Trigger b p s # evs) = b # broadcasts evs"
| "broadcasts (Fetch rq # evs) = broadcasts evs"

fun fetches :: "event list \<Rightarrow> request list" where
  "fetches [] = []"
| "fetches (Trigger b p s # evs) = fetches evs"
| "fetches (Fetch rq # evs) = rq # fetches evs"

section \<open>Example values\<close>

definition demo_constants :: constants where
  "demo_constants =
     \<lparr>conversationUrl = ''/api/v1/conversation/'', feedbackUrl = ''/api/v1/feedback'',
      refinementQueryType = ''REFINEMENT''\<rparr>"

text \<open>A store in which two questions have been answered.\<close>

definition demo_store :: store where
  "demo_store =
     \<lparr>conversation = \<lparr>conversationId = JStr ''c1'', message = JStr ''hi'', messageId = JStr ''m1'',
                      responses = JArr [JStr ''r1''], topQuestions = JArr [JStr ''q1'']\<rparr>,
      questionHistory = [JStr ''m0'', JStr ''m1''],
      questionCache =
        [(''m0'', \<lparr>cached_message = JStr ''hello'', cached_responses = JArr []\<rparr>),
         (''m1'', \<lparr>cached_message = JStr ''hi'', cached_responses = JArr [JStr ''r1'']\<rparr>)],
      self_topQuestions = JUndefined\<rparr>"

text \<open>The same store after the server has answered without top questions.\<close>

definition demo_store_no_top :: store where
  "demo_store_no_top =
     \<lparr>conversation = \<lparr>conversationId = JStr ''c1'', message = JStr ''hi'', messageId = JStr ''m1'',
                      responses = JArr [JStr ''r1''], topQuestions = JNull\<rparr>,
      questionHistory = [JStr ''m0'', JStr ''m1''],
      questionCache =
        [(''m0'', \<lparr>cached_message = JStr ''hello'', cached_responses = JArr []\<rparr>),
         (''m1'', \<lparr>cached_message = JStr ''hi'', cached_responses = JArr [JStr ''r1'']\<rparr>)],
      self_topQuestions = JUndefined\<rparr>"

definition demo_answer :: response where
  "demo_answer =
     \<lparr>status = 200, statusText = ''OK'',
      json = Inr (JObj [(''messageId'', JStr ''m2''), (''message'', JStr ''hey''),
                        (''responses'', JArr [JStr ''r2''])])\<rparr>"

definition demo_started :: response where
  "demo_started =
     \<lparr>status = 200, statusText = ''OK'',
      json = Inr (JObj [(''conversationId'', JStr ''c1''),
                        (''topQuestions'', JArr [JStr ''q1''])])\<rparr>"

definition demo_not_found :: response where
  "demo_not_found =
     \<lparr>status = 404, statusText = ''Not Found'', json = Inl (SyntaxError ''Unexpected token'')\<rparr>"

section \<open>Values and the cache\<close>

lemma get_prop_truthy: "truthy v \<Longrightarrow> get_prop v name = Inr (read_prop v name)"
  by (cases v) (simp_all add: read_prop_def)

lemma entry_value_truthy: "truthy (entry_value cm)"
  by (simp add: entry_value_def)

lemma prop_entry_value:
  "read_prop (entry_value cm) ''message'' = cached_message cm"
  "read_prop (entry_value cm) ''responses'' = cached_responses cm"
  by (simp_all add: read_prop_def entry_value_def)

text \<open>An entry written under a key is what a read of that key finds.\<close>

lemma cache_get_own: "map_of cache k = Some cm \<Longrightarrow> cache_get cache k = entry_value cm"
  by (simp add: cache_get_def)


text \<open>
  A key that was never written and that no object inherits reads \<^verbatim>\<open>undefined\<close>, as
  long as no entry was written under \<^verbatim>\<open>__proto__\<close>.
\<close>

lemma cache_get_absent:
  assumes "map_of cache k = None" and "map_of cache ''__proto__'' = None"
    and "k \<notin> set (''__proto__'' # Object_prototype_functions)"
  shows "cache_get cache k = JUndefined"
  using assms by (auto simp add: cache_get_def Object_prototype_get_def Object_prototype_functions_def)

section \<open>Promise chains\<close>

lemma content_status_rejected:
  "status resp \<noteq> 200 \<Longrightarrow>
   then_catch h (then_p (then_p (Inr resp) analyzeStatus) parseJson) s
     = (s, [Trigger SERVER_ERROR_BROADCAST (ErrorPayload (Error (statusText resp))) s])"
  by (simp add: then_catch_def then_p_def analyzeStatus_def catch_error_def)

lemma content_status_accepted:
  "status resp = 200 \<Longrightarrow>
   then_catch h (then_p (then_p (Inr resp) analyzeStatus) parseJson) s
     = then_catch h (json resp) s"
  by (simp add: then_p_def analyzeStatus_def parseJson_def)

lemma content_chain:
  "then_catch h (then_p (then_p (Inr resp) analyzeStatus) parseJson) s =
     (if status resp = 200 then then_catch h (json resp) s
      else (s, [Trigger SERVER_ERROR_BROADCAST (ErrorPayload (Error (statusText resp))) s]))"
  by (simp add: content_status_rejected content_status_accepted)

text \<open>A property read throws for every name or for none.\<close>

lemma get_prop_cases:
  "(\<exists>e. \<forall>name. get_prop data name = Inl (e name))
     \<or> (\<exists>v. \<forall>name. get_prop data name = Inr (v name))"
proof (cases data)
  case JUndefined
  then show ?thesis by (auto intro: exI [of _ TypeError])
next
  case JNull
  then show ?thesis by (auto intro: exI [of _ TypeError])
next
  case (JObj kvs)
  then show ?thesis by auto
qed auto

section \<open>The handlers on each path\<close>

lemma ASK_QUESTION_miss:
  assumes "\<not> truthy (q_messageId q)
           \<or> \<not> truthy (cache_get (questionCache s) (to_string (q_messageId q)))"
  shows "on_ASK_QUESTION c q s =
      (s, [Trigger ASKING_QUESTION_BROADCAST NoPayload s,
           Fetch \<lparr>url = conversationUrl c @ to_string (conversationId (conversation s)),
                  http_method = ''post'', headers = json_headers,
                  body = Some (JObj (requestBody c q s))\<rparr>], Some AwaitAnswer)"
  using assms by (auto simp add: on_ASK_QUESTION_def Let_def)

lemma ASK_QUESTION_hit:
  assumes "truthy (q_messageId q)"
    and "map_of (questionCache s) (to_string (q_messageId q)) = Some cm"
  shows "on_ASK_QUESTION c q s =
      (recall (q_messageId q) (entry_value cm) s,
       [Trigger ASKING_QUESTION_BROADCAST NoPayload s,
        Trigger ANSWER_RECEIVED_BROADCAST
          (ConversationPayload (conversation (recall (q_messageId q) (entry_value cm) s)))
          (recall (q_messageId q) (entry_value cm) s),
        Trigger ALTERNATIVE_QUESTION_BROADCAST
          (ConversationPayload (conversation (recall (q_messageId q) (entry_value cm) s)))
          (recall (q_messageId q) (entry_value cm) s)],
       None)"
  using assms by (simp add: on_ASK_QUESTION_def Let_def cache_get_own entry_value_truthy)

lemma recall_entry:
  "recall mid (entry_value cm) s =
     \<lparr>conversation =
        \<lparr>conversationId = conversationId (conversation s),
         message = cached_message cm,
         messageId = mid,
         responses = cached_responses cm,
         topQuestions = topQuestions (conversation s)\<rparr>,
      questionHistory = questionHistory s,
      questionCache = questionCache s,
      self_topQuestions = self_topQuestions s\<rparr>"
  by (simp add: recall_def prop_entry_value)

lemma ASK_QUESTION_data_ok:
  assumes "get_prop data ''messageId'' = Inr m"
    and "get_prop data ''message'' = Inr t"
    and "get_prop data ''responses'' = Inr r"
  shows "ASK_QUESTION_data data s =
     (let s' = \<lparr>conversation = (conversation s)\<lparr>responses := r, messageId := m, message := t\<rparr>,
                questionHistory = questionHistory s @ [m],
                questionCache = AList.update (to_string m)
                                  \<lparr>cached_message = t, cached_responses = r\<rparr> (questionCache s),
                self_topQuestions = self_topQuestions s\<rparr>
      in (None, s',
          [Trigger ANSWER_RECEIVED_BROADCAST (ConversationPayload (conversation s')) s',
           Trigger ALTERNATIVE_QUESTION_BROADCAST (ConversationPayload (conversation s')) s']))"
  using assms by (simp add: ASK_QUESTION_data_def reading_def Let_def)

lemma CONVERSATION_START_data_ok:
  assumes "get_prop data ''conversationId'' = Inr cid"
    and "get_prop data ''topQuestions'' = Inr tq"
  shows "CONVERSATION_START_data data s =
     (None, s\<lparr>conversation := (conversation s)\<lparr>conversationId := cid, topQuestions := tq\<rparr>\<rparr>,
      [Trigger CONVERSATION_STARTED_BROADCAST
         (ConversationPayload ((conversation s)\<lparr>conversationId := cid, topQuestions := tq\<rparr>))
         (s\<lparr>conversation := (conversation s)\<lparr>conversationId := cid, topQuestions := tq\<rparr>\<rparr>),
       Trigger TOP_QUESTIONS_BROADCAST (ValuePayload tq)
         (s\<lparr>conversation := (conversation s)\<lparr>conversationId := cid, topQuestions := tq\<rparr>\<rparr>)])"
  using assms by (simp add: CONVERSATION_START_data_def reading_def Let_def)

lemma requestBody_referrer:
  "truthy (q_referrer q) \<Longrightarrow>
   map_of (requestBody c q s) ''referrer'' =
     Some (JObj (if q_referrer q = JStr (refinementQueryType c)
                 then [(''source'', q_referrer q), (''messageId'', messageId (conversation s))]
                 else [(''source'', q_referrer q)]))"
  by (simp add: requestBody_def Let_def update_conv')

lemma requestBody_keys:
  "fst ` set (requestBody c q s) =
     (if truthy (q_message q) then {''message''} else {})
       \<union> (if truthy (q_referrer q) then {''referrer''} else {})"
  by (auto simp add: requestBody_def Let_def)

lemma requestBody_message:
  "map_of (requestBody c q s) ''message'' =
     (if truthy (q_message q) then Some (q_message q) else None)"
  by (simp add: requestBody_def Let_def update_conv')

section \<open>The property \<open>self.topQuestions\<close> is never written\<close>

lemma then_catch_self_topQuestions:
  assumes "\<And>data e s' evs. h data s = (e, s', evs) \<Longrightarrow> self_topQuestions s' = self_topQuestions s"
  shows "self_topQuestions (fst (then_catch h p s)) = self_topQuestions s"
proof (cases p)
  case (Inl e)
  then show ?thesis by (simp add: then_catch_def catch_error_def)
next
  case (Inr data)
  obtain e s' evs where h: "h data s = (e, s', evs)"
    by (cases "h data s") auto
  with assms have "self_topQuestions s' = self_topQuestions s" by blast
  with Inr h show ?thesis
    by (cases e) (simp_all add: then_catch_def catch_error_def)
qed

lemma data_handlers_self_topQuestions:
  "CONVERSATION_START_data data s = (e, s', evs) \<Longrightarrow> self_topQuestions s' = self_topQuestions s"
  "ASK_QUESTION_data data s = (e, s', evs) \<Longrightarrow> self_topQuestions s' = self_topQuestions s"
  "GET_TOP_QUESTIONS_data data s = (e, s', evs) \<Longrightarrow> self_topQuestions s' = self_topQuestions s"
  using get_prop_cases [of data]
  by (auto simp add: CONVERSATION_START_data_def ASK_QUESTION_data_def GET_TOP_QUESTIONS_data_def
      reading_def Let_def)

lemma settle_self_topQuestions:
  "self_topQuestions (fst (settle p r s)) = self_topQuestions s"
proof (cases p)
  case AwaitFeedback
  then show ?thesis
    by (simp add: feedback_response_def catch_error_def split: sum.splits)
qed (simp_all add: CONVERSATION_START_response_def ASK_QUESTION_response_def
       GET_TOP_QUESTIONS_response_def then_catch_self_topQuestions data_handlers_self_topQuestions)

lemma handlers_self_topQuestions:
  "self_topQuestions (fst (on_CONVERSATION_START c s)) = self_topQuestions s"
  "self_topQuestions (fst (on_ASK_QUESTION c q s)) = self_topQuestions s"
  "self_topQuestions (fst (on_NONE_OF_THE_ABOVE_CLICKED c s)) = self_topQuestions s"
  "self_topQuestions (fst (on_NEGATIVE_FEEDBACK_GIVEN c s)) = self_topQuestions s"
  "self_topQuestions (fst (on_POSITIVE_FEEDBACK_GIVEN c s)) = self_topQuestions s"
  "self_topQuestions (fst (on_FORUM_BUTTON_PRESSED c v s)) = self_topQuestions s"
  "self_topQuestions (fst (on_SET_CURRENT_QUESTION q s)) = self_topQuestions s"
  "self_topQuestions (fst (on_UPDATE_REFINEMENT_QUESTIONS q s)) = self_topQuestions s"
  "self_topQuestions (fst (on_GET_ALTERNATIVE_QUESTIONS s)) = self_topQuestions s"
  "self_topQuestions (fst (on_GET_TOP_QUESTIONS c s)) = self_topQuestions s"
  by (simp_all add: on_CONVERSATION_START_def on_ASK_QUESTION_def on_NONE_OF_THE_ABOVE_CLICKED_def
      on_NEGATIVE_FEEDBACK_GIVEN_def on_POSITIVE_FEEDBACK_GIVEN_def on_FORUM_BUTTON_PRESSED_def
      on_SET_CURRENT_QUESTION_def on_UPDATE_REFINEMENT_QUESTIONS_def
      on_GET_ALTERNATIVE_QUESTIONS_def on_GET_TOP_QUESTIONS_def recall_def Let_def)

lemma complete_self_topQuestions:
  "self_topQuestions (fst (complete out r)) = self_topQuestions (fst out)"
  by (cases out) (simp add: complete_def settle_self_topQuestions split: option.splits)

section \<open>GET_TOP_QUESTIONS\<close>

text \<open>
  With a conversation id and no top questions, the handler fetches
  \<^verbatim>\<open>{conversationUrl}{conversationId}/topQuestions\<close>, and a 200 response with a body
  stores its \<^verbatim>\<open>topQuestions\<close> and broadcasts them.
\<close>

lemma GET_TOP_QUESTIONS_unset_fetches:
  assumes "truthy (conversationId (conversation s))"
    and "\<not> truthy (topQuestions (conversation s))"
    and "status resp = 200" and "json resp = Inr data"
    and "get_prop data ''topQuestions'' = Inr tq"
  shows "complete (on_GET_TOP_QUESTIONS c s) (Inr resp) =
     (s\<lparr>conversation := (conversation s)\<lparr>topQuestions := tq\<rparr>\<rparr>,
      [Fetch \<lparr>url = conversationUrl c @ to_string (conversationId (conversation s))
                     @ ''/topQuestions'',
              http_method = ''get'', headers = json_headers, body = None\<rparr>,
       Trigger TOP_QUESTIONS_BROADCAST (ValuePayload tq)
         (s\<lparr>conversation := (conversation s)\<lparr>topQuestions := tq\<rparr>\<rparr>)])"
proof -
  have "GET_TOP_QUESTIONS_response (Inr resp) s = then_catch GET_TOP_QUESTIONS_data (Inr data) s"
    using assms(3,4) by (simp add: GET_TOP_QUESTIONS_response_def content_status_accepted)
  then show ?thesis
    using assms(1,2,5)
    by (simp add: complete_def on_GET_TOP_QUESTIONS_def then_catch_def
        GET_TOP_QUESTIONS_data_def reading_def Let_def)
qed

text \<open>
  With top questions already there, the handler reaches its second test, which reads
  \<^verbatim>\<open>self.topQuestions\<close>; while that property is undefined, as the constructor and every
  handler leave it, nothing is broadcast.
\<close>

lemma GET_TOP_QUESTIONS_set_silent:
  "truthy (topQuestions (conversation s)) \<Longrightarrow> \<not> truthy (self_topQuestions s) \<Longrightarrow>
   on_GET_TOP_QUESTIONS c s = (s, [], None)"
  by (simp add: on_GET_TOP_QUESTIONS_def)

text \<open>
  C1. For \<^verbatim>\<open>GET_TOP_QUESTIONS\<close>: with \<^verbatim>\<open>conversationId\<close> set and
  \<^verbatim>\<open>topQuestions\<close> unset the store fetches the top questions, stores and broadcasts
  them; with \<^verbatim>\<open>topQuestions\<close> already set it makes no network call and broadcasts the
  existing value. The code does not do the last: after a conversation has started with the
  top questions \<^verbatim>\<open>["q1"]\<close>, \<^verbatim>\<open>GET_TOP_QUESTIONS\<close> makes no network call and
  broadcasts nothing.
\<close>

theorem GET_TOP_QUESTIONS_set_broadcasts_nothing:
  "fst (complete (on_CONVERSATION_START demo_constants ConversationStore) (Inr demo_started))
     = \<lparr>conversation = \<lparr>conversationId = JStr ''c1'', message = JStr [], messageId = JStr [],
                        responses = JArr [], topQuestions = JArr [JStr ''q1'']\<rparr>,
        questionHistory = [], questionCache = [], self_topQuestions = JUndefined\<rparr>
   \<and> on_GET_TOP_QUESTIONS demo_constants
       (fst (complete (on_CONVERSATION_START demo_constants ConversationStore)
               (Inr demo_started)))
     = (fst (complete (on_CONVERSATION_START demo_constants ConversationStore)
               (Inr demo_started)), [], None)"
  by (simp add: on_GET_TOP_QUESTIONS_def complete_def on_CONVERSATION_START_def
      CONVERSATION_START_response_def then_catch_def then_p_def analyzeStatus_def parseJson_def
      CONVERSATION_START_data_def reading_def ConversationStore_def demo_started_def Let_def)

section \<open>ASK_QUESTION\<close>

text \<open>
  Whatever the store is when the response arrives, a 200 response with a body is cached and
  pushed on the history, and both broadcasts see the store so updated.
\<close>

lemma ASK_QUESTION_response_success:
  assumes "status resp = 200" and "json resp = Inr data"
    and m: "get_prop data ''messageId'' = Inr m"
    and t: "get_prop data ''message'' = Inr t"
    and r: "get_prop data ''responses'' = Inr r"
  shows "\<exists>s'. ASK_QUESTION_response (Inr resp) s =
           (s', [Trigger ANSWER_RECEIVED_BROADCAST (ConversationPayload (conversation s')) s',
                 Trigger ALTERNATIVE_QUESTION_BROADCAST (ConversationPayload (conversation s')) s'])
     \<and> map_of (questionCache s') (to_string m) = Some \<lparr>cached_message = t, cached_responses = r\<rparr>
     \<and> questionHistory s' = questionHistory s @ [m]
     \<and> conversation s' = (conversation s)\<lparr>responses := r, messageId := m, message := t\<rparr>"
proof -
  have "ASK_QUESTION_response (Inr resp) s = then_catch ASK_QUESTION_data (Inr data) s"
    using assms(1,2) by (simp add: ASK_QUESTION_response_def content_status_accepted)
  then show ?thesis
    by (simp add: then_catch_def ASK_QUESTION_data_ok [OF m t r] Let_def update_conv')
qed



text \<open>
  A truthy \<^verbatim>\<open>messageId\<close> under which the store cached an entry is answered by the
  handler itself, with the message and responses of the entry, no promise chain and no
  fetch.
\<close>

lemma ASK_QUESTION_cached_replays:
  assumes "truthy (q_messageId q)"
    and "map_of (questionCache s) (to_string (q_messageId q)) = Some cm"
  shows "\<exists>s'. on_ASK_QUESTION c q s =
              (s',
               [Trigger ASKING_QUESTION_BROADCAST NoPayload s,
                Trigger ANSWER_RECEIVED_BROADCAST (ConversationPayload (conversation s')) s',
                Trigger ALTERNATIVE_QUESTION_BROADCAST (ConversationPayload (conversation s')) s'],
               None)
          \<and> message (conversation s') = cached_message cm
          \<and> responses (conversation s') = cached_responses cm
          \<and> fetches (snd (complete (on_ASK_QUESTION c q s) r)) = []"
  using assms by (simp add: ASK_QUESTION_hit complete_def recall_entry)

text \<open>
  When the test \<^verbatim>\<open>messageId && cachedMessage\<close> fails, the handler triggers only
  \<^verbatim>\<open>ASKING_QUESTION_BROADCAST\<close> and issues the fetch; whatever else is triggered comes
  from the chain, after the fetch. The test fails for a falsy \<^verbatim>\<open>messageId\<close>, and for
  one that was never cached unless it names something every object inherits.
\<close>

lemma ASK_QUESTION_miss_fetches_first:
  assumes "\<not> truthy (q_messageId q)
           \<or> \<not> truthy (cache_get (questionCache s) (to_string (q_messageId q)))"
  shows "\<exists>rq. on_ASK_QUESTION c q s =
              (s, [Trigger ASKING_QUESTION_BROADCAST NoPayload s, Fetch rq], Some AwaitAnswer)
          \<and> snd (complete (on_ASK_QUESTION c q s) r) =
              [Trigger ASKING_QUESTION_BROADCAST NoPayload s, Fetch rq]
                @ snd (ASK_QUESTION_response r s)"
  by (simp add: ASK_QUESTION_miss [OF assms] complete_def)

lemma ASK_QUESTION_absent_fetches_first:
  assumes "map_of (questionCache s) (to_string (q_messageId q)) = None"
    and "map_of (questionCache s) ''__proto__'' = None"
    and "to_string (q_messageId q) \<notin> set (''__proto__'' # Object_prototype_functions)"
  shows "\<exists>rq. on_ASK_QUESTION c q s =
              (s, [Trigger ASKING_QUESTION_BROADCAST NoPayload s, Fetch rq], Some AwaitAnswer)"
  by (simp add: ASK_QUESTION_miss cache_get_absent [OF assms])

text \<open>
  C3. For every truthy \<^verbatim>\<open>messageId\<close> present in the cache, \<^verbatim>\<open>ASK_QUESTION\<close>
  triggers \<^verbatim>\<open>ANSWER_RECEIVED_BROADCAST\<close> at once with the cached message and responses
  and without a network call; for every \<^verbatim>\<open>messageId\<close> absent from the cache, or falsy,
  it issues a network call before \<^verbatim>\<open>ANSWER_RECEIVED_BROADCAST\<close>. The code does not do
  the last for a \<^verbatim>\<open>messageId\<close> that names a property every object inherits: on a new
  store, whose cache is empty, \<^verbatim>\<open>ASK_QUESTION\<close> with
  \<^verbatim>\<open>{messageId: "constructor", message: "How?"}\<close> finds the inherited function, takes
  the recall branch, sets message and responses to \<^verbatim>\<open>undefined\<close>, triggers
  \<^verbatim>\<open>ANSWER_RECEIVED_BROADCAST\<close> and fetches nothing.
\<close>

theorem ASK_QUESTION_inherited_name_no_fetch:
  "map_of (questionCache ConversationStore) ''constructor'' = None
   \<and> on_ASK_QUESTION demo_constants
       \<lparr>q_messageId = JStr ''constructor'', q_message = JStr ''How?'', q_referrer = JUndefined\<rparr>
       ConversationStore
     = (\<lparr>conversation =
           \<lparr>conversationId = JStr [], message = JUndefined, messageId = JStr ''constructor'',
            responses = JUndefined, topQuestions = JArr []\<rparr>,
         questionHistory = [], questionCache = [], self_topQuestions = JUndefined\<rparr>,
        [Trigger ASKING_QUESTION_BROADCAST NoPayload ConversationStore,
         Trigger ANSWER_RECEIVED_BROADCAST
           (ConversationPayload
              \<lparr>conversationId = JStr [], message = JUndefined, messageId = JStr ''constructor'',
               responses = JUndefined, topQuestions = JArr []\<rparr>)
           \<lparr>conversation =
              \<lparr>conversationId = JStr [], message = JUndefined, messageId = JStr ''constructor'',
               responses = JUndefined, topQuestions = JArr []\<rparr>,
            questionHistory = [], questionCache = [], self_topQuestions = JUndefined\<rparr>,
         Trigger ALTERNATIVE_QUESTION_BROADCAST
           (ConversationPayload
              \<lparr>conversationId = JStr [], message = JUndefined, messageId = JStr ''constructor'',
               responses = JUndefined, topQuestions = JArr []\<rparr>)
           \<lparr>conversation =
              \<lparr>conversationId = JStr [], message = JUndefined, messageId = JStr ''constructor'',
               responses = JUndefined, topQuestions = JArr []\<rparr>,
            questionHistory = [], questionCache = [], self_topQuestions = JUndefined\<rparr>],
        None)
   \<and> fetches (snd (complete
        (on_ASK_QUESTION demo_constants
           \<lparr>q_messageId = JStr ''constructor'', q_message = JStr ''How?'', q_referrer = JUndefined\<rparr>
           ConversationStore) (Inr demo_answer))) = []"
  by (simp add: on_ASK_QUESTION_def complete_def recall_def read_prop_def cache_get_def
      Object_prototype_get_def native_function_def ConversationStore_def Let_def)

text \<open>
  C9. For every \<^verbatim>\<open>ASK_QUESTION\<close> served from the cache, the store left behind has the
  cache, the history, \<^verbatim>\<open>conversationId\<close> and \<^verbatim>\<open>topQuestions\<close> it had; only
  \<^verbatim>\<open>message\<close>, \<^verbatim>\<open>messageId\<close> and \<^verbatim>\<open>responses\<close> are overwritten, from the
  payload and the cached entry.
\<close>

theorem ASK_QUESTION_cache_hit_frame:
  assumes "truthy (q_messageId q)"
    and "map_of (questionCache s) (to_string (q_messageId q)) = Some cm"
  shows "fst (complete (on_ASK_QUESTION c q s) r) =
        \<lparr>conversation =
            \<lparr>conversationId = conversationId (conversation s),
             message = cached_message cm,
             messageId = q_messageId q,
             responses = cached_responses cm,
             topQuestions = topQuestions (conversation s)\<rparr>,
          questionHistory = questionHistory s,
          questionCache = questionCache s,
          self_topQuestions = self_topQuestions s\<rparr>"
  using assms by (simp add: ASK_QUESTION_hit complete_def recall_entry)

theorem ASK_QUESTION_cache_hit_frame_witness:
  "fst (complete (on_ASK_QUESTION demo_constants
          \<lparr>q_messageId = JStr ''m0'', q_message = JUndefined, q_referrer = JUndefined\<rparr>
          demo_store) (Inr demo_answer)) =
     \<lparr>conversation =
         \<lparr>conversationId = JStr ''c1'', message = JStr ''hello'', messageId = JStr ''m0'',
          responses = JArr [], topQuestions = JArr [JStr ''q1'']\<rparr>,
       questionHistory = [JStr ''m0'', JStr ''m1''],
       questionCache = questionCache demo_store,
       self_topQuestions = JUndefined\<rparr>"
  using ASK_QUESTION_cache_hit_frame
    [of "\<lparr>q_messageId = JStr ''m0'', q_message = JUndefined, q_referrer = JUndefined\<rparr>"
        demo_store "\<lparr>cached_message = JStr ''hello'', cached_responses = JArr []\<rparr>"
        demo_constants "Inr demo_answer"]
  by (simp add: demo_store_def)

text \<open>
  C6. For every \<^verbatim>\<open>ASK_QUESTION\<close> on the network path with a truthy referrer: the body of
  the POST has a \<^verbatim>\<open>referrer\<close> object; when the referrer equals the refinement query type
  the object is \<^verbatim>\<open>{source, messageId}\<close> with the referrer and the conversation's current
  \<^verbatim>\<open>messageId\<close>, and for any other referrer it is \<^verbatim>\<open>{source}\<close> alone.
\<close>

theorem ASK_QUESTION_referrer_body:
  assumes miss: "\<not> truthy (q_messageId q)
                 \<or> \<not> truthy (cache_get (questionCache s) (to_string (q_messageId q)))"
    and ref: "truthy (q_referrer q)"
  shows "\<exists>rq b. on_ASK_QUESTION c q s =
                  (s, [Trigger ASKING_QUESTION_BROADCAST NoPayload s, Fetch rq], Some AwaitAnswer)
      \<and> http_method rq = ''post''
      \<and> body rq = Some (JObj b)
      \<and> map_of b ''referrer'' =
          Some (JObj (if q_referrer q = JStr (refinementQueryType c)
                      then [(''source'', q_referrer q),
                            (''messageId'', messageId (conversation s))]
                      else [(''source'', q_referrer q)]))"
  by (simp add: ASK_QUESTION_miss [OF miss] requestBody_referrer [OF ref])

theorem ASK_QUESTION_referrer_body_witness:
  "(\<exists>rq b. on_ASK_QUESTION demo_constants
              \<lparr>q_messageId = JUndefined, q_message = JStr ''How?'',
               q_referrer = JStr ''REFINEMENT''\<rparr> demo_store =
                  (demo_store,
                   [Trigger ASKING_QUESTION_BROADCAST NoPayload demo_store, Fetch rq],
                   Some AwaitAnswer)
      \<and> http_method rq = ''post''
      \<and> body rq = Some (JObj b)
      \<and> map_of b ''referrer'' =
          Some (JObj [(''source'', JStr ''REFINEMENT''), (''messageId'', JStr ''m1'')]))
   \<and> (\<exists>rq b. on_ASK_QUESTION demo_constants
              \<lparr>q_messageId = JUndefined, q_message = JStr ''How?'',
               q_referrer = JStr ''TOP_QUESTION''\<rparr> demo_store =
                  (demo_store,
                   [Trigger ASKING_QUESTION_BROADCAST NoPayload demo_store, Fetch rq],
                   Some AwaitAnswer)
      \<and> http_method rq = ''post''
      \<and> body rq = Some (JObj b)
      \<and> map_of b ''referrer'' = Some (JObj [(''source'', JStr ''TOP_QUESTION'')]))"
  using ASK_QUESTION_referrer_body
    [of "\<lparr>q_messageId = JUndefined, q_message = JStr ''How?'',
          q_referrer = JStr ''REFINEMENT''\<rparr>" demo_store demo_constants]
    ASK_QUESTION_referrer_body
    [of "\<lparr>q_messageId = JUndefined, q_message = JStr ''How?'',
          q_referrer = JStr ''TOP_QUESTION''\<rparr>" demo_store demo_constants]
  by (simp add: demo_store_def demo_constants_def)

text \<open>
  C10. For every \<^verbatim>\<open>ASK_QUESTION\<close> on the network path, the body of the POST has a
  \<^verbatim>\<open>message\<close> field exactly when the payload's message is truthy (and then with that
  message), a \<^verbatim>\<open>referrer\<close> field exactly when the payload's referrer is truthy, and no
  other field; an empty-string message or referrer is left out of the body.
\<close>

theorem ASK_QUESTION_body_fields:
  assumes miss: "\<not> truthy (q_messageId q)
                 \<or> \<not> truthy (cache_get (questionCache s) (to_string (q_messageId q)))"
  shows "\<exists>rq b. on_ASK_QUESTION c q s =
                  (s, [Trigger ASKING_QUESTION_BROADCAST NoPayload s, Fetch rq], Some AwaitAnswer)
      \<and> body rq = Some (JObj b)
      \<and> (''message'' \<in> fst ` set b) = truthy (q_message q)
      \<and> (''referrer'' \<in> fst ` set b) = truthy (q_referrer q)
      \<and> fst ` set b \<subseteq> {''message'', ''referrer''}
      \<and> map_of b ''message'' = (if truthy (q_message q) then Some (q_message q) else None)
      \<and> (q_message q = JStr [] \<longrightarrow> ''message'' \<notin> fst ` set b)
      \<and> (q_referrer q = JStr [] \<longrightarrow> ''referrer'' \<notin> fst ` set b)"
  by (auto simp add: ASK_QUESTION_miss [OF miss] requestBody_keys requestBody_message)

theorem ASK_QUESTION_body_fields_witness:
  "\<exists>rq b. on_ASK_QUESTION demo_constants
             \<lparr>q_messageId = JStr [], q_message = JStr [], q_referrer = JStr []\<rparr> demo_store =
                  (demo_store,
                   [Trigger ASKING_QUESTION_BROADCAST NoPayload demo_store, Fetch rq],
                   Some AwaitAnswer)
      \<and> body rq = Some (JObj b)
      \<and> ''message'' \<notin> fst ` set b
      \<and> ''referrer'' \<notin> fst ` set b
      \<and> map_of b ''message'' = None"
  using ASK_QUESTION_body_fields
    [of "\<lparr>q_messageId = JStr [], q_message = JStr [], q_referrer = JStr []\<rparr>"
        demo_store demo_constants]
  by auto

section \<open>CONVERSATION_START\<close>

text \<open>
  C4. For every \<^verbatim>\<open>CONVERSATION_START\<close> whose response has a status other than 200, the
  store triggers exactly one broadcast, \<^verbatim>\<open>SERVER_ERROR_BROADCAST\<close> with the error made of
  the status text, and is left as it was, \<^verbatim>\<open>conversationId\<close> included. On a 200 response
  whose body gives \<^verbatim>\<open>conversationId\<close> and \<^verbatim>\<open>topQuestions\<close>, it stores both and
  triggers \<^verbatim>\<open>CONVERSATION_STARTED_BROADCAST\<close>, then \<^verbatim>\<open>TOP_QUESTIONS_BROADCAST\<close>.
\<close>

theorem CONVERSATION_START_outcomes:
  "(status resp \<noteq> 200 \<longrightarrow>
      complete (on_CONVERSATION_START c s) (Inr resp) =
        (s, [Fetch \<lparr>url = conversationUrl c, http_method = ''post'', headers = json_headers,
                    body = None\<rparr>,
             Trigger SERVER_ERROR_BROADCAST (ErrorPayload (Error (statusText resp))) s]))
   \<and> (status resp = 200 \<and> json resp = Inr data
        \<and> get_prop data ''conversationId'' = Inr cid \<and> get_prop data ''topQuestions'' = Inr tq \<longrightarrow>
      (\<exists>s'. s' = s\<lparr>conversation := (conversation s)\<lparr>conversationId := cid, topQuestions := tq\<rparr>\<rparr>
         \<and> complete (on_CONVERSATION_START c s) (Inr resp) =
             (s', [Fetch \<lparr>url = conversationUrl c, http_method = ''post'',
                          headers = json_headers, body = None\<rparr>,
                   Trigger CONVERSATION_STARTED_BROADCAST (ConversationPayload (conversation s')) s',
                   Trigger TOP_QUESTIONS_BROADCAST (ValuePayload tq) s'])))"
proof (intro conjI impI)
  assume "status resp \<noteq> 200"
  then show "complete (on_CONVERSATION_START c s) (Inr resp) =
        (s, [Fetch \<lparr>url = conversationUrl c, http_method = ''post'', headers = json_headers,
                    body = None\<rparr>,
             Trigger SERVER_ERROR_BROADCAST (ErrorPayload (Error (statusText resp))) s])"
    by (simp add: complete_def on_CONVERSATION_START_def CONVERSATION_START_response_def
        content_status_rejected)
next
  assume h: "status resp = 200 \<and> json resp = Inr data
        \<and> get_prop data ''conversationId'' = Inr cid \<and> get_prop data ''topQuestions'' = Inr tq"
  then have chain: "CONVERSATION_START_response (Inr resp) s =
      then_catch CONVERSATION_START_data (Inr data) s"
    by (simp add: CONVERSATION_START_response_def content_status_accepted)
  from h have d: "get_prop data ''conversationId'' = Inr cid"
    "get_prop data ''topQuestions'' = Inr tq"
    by simp_all
  show "\<exists>s'. s' = s\<lparr>conversation := (conversation s)\<lparr>conversationId := cid, topQuestions := tq\<rparr>\<rparr>
         \<and> complete (on_CONVERSATION_START c s) (Inr resp) =
             (s', [Fetch \<lparr>url = conversationUrl c, http_method = ''post'',
                          headers = json_headers, body = None\<rparr>,
                   Trigger CONVERSATION_STARTED_BROADCAST (ConversationPayload (conversation s')) s',
                   Trigger TOP_QUESTIONS_BROADCAST (ValuePayload tq) s'])"
    by (simp add: complete_def on_CONVERSATION_START_def chain then_catch_def
        CONVERSATION_START_data_ok [OF d])
qed

theorem CONVERSATION_START_outcomes_witness:
  "complete (on_CONVERSATION_START demo_constants ConversationStore) (Inr demo_not_found) =
     (ConversationStore,
      [Fetch \<lparr>url = ''/api/v1/conversation/'', http_method = ''post'', headers = json_headers,
              body = None\<rparr>,
       Trigger SERVER_ERROR_BROADCAST (ErrorPayload (Error ''Not Found'')) ConversationStore])
   \<and> broadcasts (snd (complete (on_CONVERSATION_START demo_constants ConversationStore)
                         (Inr demo_started)))
       = [CONVERSATION_STARTED_BROADCAST, TOP_QUESTIONS_BROADCAST]
   \<and> conversationId (conversation
        (fst (complete (on_CONVERSATION_START demo_constants ConversationStore)
                (Inr demo_started)))) = JStr ''c1''
   \<and> topQuestions (conversation
        (fst (complete (on_CONVERSATION_START demo_constants ConversationStore)
                (Inr demo_started)))) = JArr [JStr ''q1'']"
proof -
  have bad: "status demo_not_found \<noteq> 200"
    by (simp add: demo_not_found_def)
  have good: "status demo_started = 200
      \<and> json demo_started = Inr (JObj [(''conversationId'', JStr ''c1''),
                                       (''topQuestions'', JArr [JStr ''q1''])])
      \<and> get_prop (JObj [(''conversationId'', JStr ''c1''),
                         (''topQuestions'', JArr [JStr ''q1''])]) ''conversationId''
          = Inr (JStr ''c1'')
      \<and> get_prop (JObj [(''conversationId'', JStr ''c1''),
                         (''topQuestions'', JArr [JStr ''q1''])]) ''topQuestions''
          = Inr (JArr [JStr ''q1''])"
    by (simp add: demo_started_def)
  note a = CONVERSATION_START_outcomes
    [where resp = demo_not_found and c = demo_constants and s = ConversationStore,
     THEN conjunct1, rule_format, OF bad]
  note b = CONVERSATION_START_outcomes
    [where resp = demo_started and c = demo_constants and s = ConversationStore
       and data = "JObj [(''conversationId'', JStr ''c1''),
                         (''topQuestions'', JArr [JStr ''q1''])]"
       and cid = "JStr ''c1''" and tq = "JArr [JStr ''q1'']",
     THEN conjunct2, rule_format, OF good]
  from a b show ?thesis
    by (simp add: demo_constants_def demo_not_found_def)
qed

section \<open>Status checks\<close>

text \<open>The chains by themselves: which statuses each accepts, and what it does otherwise.\<close>

lemma chains_status:
  "feedback_response (Inr resp) s =
     (if 200 \<le> status resp \<and> status resp < 300 then (s, [])
      else (s, [Trigger SERVER_ERROR_BROADCAST (ErrorPayload (Error (statusText resp))) s]))"
  "CONVERSATION_START_response (Inr resp) s =
     (if status resp = 200 then then_catch CONVERSATION_START_data (json resp) s
      else (s, [Trigger SERVER_ERROR_BROADCAST (ErrorPayload (Error (statusText resp))) s]))"
  "ASK_QUESTION_response (Inr resp) s =
     (if status resp = 200 then then_catch ASK_QUESTION_data (json resp) s
      else (s, [Trigger SERVER_ERROR_BROADCAST (ErrorPayload (Error (statusText resp))) s]))"
  "GET_TOP_QUESTIONS_response (Inr resp) s =
     (if status resp = 200 then then_catch GET_TOP_QUESTIONS_data (json resp) s
      else (s, [Trigger SERVER_ERROR_BROADCAST (ErrorPayload (Error (statusText resp))) s]))"
proof -
  show "feedback_response (Inr resp) s =
     (if 200 \<le> status resp \<and> status resp < 300 then (s, [])
      else (s, [Trigger SERVER_ERROR_BROADCAST (ErrorPayload (Error (statusText resp))) s]))"
    by (auto simp add: feedback_response_def feedback_status_def then_p_def catch_error_def)
next
  show "CONVERSATION_START_response (Inr resp) s =
     (if status resp = 200 then then_catch CONVERSATION_START_data (json resp) s
      else (s, [Trigger SERVER_ERROR_BROADCAST (ErrorPayload (Error (statusText resp))) s]))"
    unfolding CONVERSATION_START_response_def by (rule content_chain)
next
  show "ASK_QUESTION_response (Inr resp) s =
     (if status resp = 200 then then_catch ASK_QUESTION_data (json resp) s
      else (s, [Trigger SERVER_ERROR_BROADCAST (ErrorPayload (Error (statusText resp))) s]))"
    unfolding ASK_QUESTION_response_def by (rule content_chain)
next
  show "GET_TOP_QUESTIONS_response (Inr resp) s =
     (if status resp = 200 then then_catch GET_TOP_QUESTIONS_data (json resp) s
      else (s, [Trigger SERVER_ERROR_BROADCAST (ErrorPayload (Error (statusText resp))) s]))"
    unfolding GET_TOP_QUESTIONS_response_def by (rule content_chain)
qed

text \<open>
  C5. Every handler that fetches checks the status of the response before anything is done
  with its body. For the four feedback handlers the statuses from 200 to 299 pass and
  nothing more happens. For \<^verbatim>\<open>CONVERSATION_START\<close>, for \<^verbatim>\<open>ASK_QUESTION\<close> on its
  network path and for \<^verbatim>\<open>GET_TOP_QUESTIONS\<close> when it fetches, 200 alone passes and the
  parsed body goes to the handler's data function. On any other status the execution of the
  action ends with the store as the handler left it and, after the handler's own events,
  exactly one \<^verbatim>\<open>SERVER_ERROR_BROADCAST\<close> carrying the error made of the status text.
\<close>

theorem status_validation:
  "complete (on_CONVERSATION_START c s) (Inr resp) =
     (if status resp = 200
      then (fst (then_catch CONVERSATION_START_data (json resp) s),
            Fetch \<lparr>url = conversationUrl c, http_method = ''post'', headers = json_headers,
                   body = None\<rparr>
              # snd (then_catch CONVERSATION_START_data (json resp) s))
      else (s,
            [Fetch \<lparr>url = conversationUrl c, http_method = ''post'', headers = json_headers,
                    body = None\<rparr>,
             Trigger SERVER_ERROR_BROADCAST (ErrorPayload (Error (statusText resp))) s]))
   \<and> complete (on_ASK_QUESTION c q s) (Inr resp) =
     (if truthy (q_messageId q)
         \<and> truthy (cache_get (questionCache s) (to_string (q_messageId q)))
      then (fst (on_ASK_QUESTION c q s), fst (snd (on_ASK_QUESTION c q s)))
      else if status resp = 200
      then (fst (then_catch ASK_QUESTION_data (json resp) s),
            Trigger ASKING_QUESTION_BROADCAST NoPayload s
              # Fetch \<lparr>url = conversationUrl c @ to_string (conversationId (conversation s)),
                       http_method = ''post'', headers = json_headers,
                       body = Some (JObj (requestBody c q s))\<rparr>
              # snd (then_catch ASK_QUESTION_data (json resp) s))
      else (s,
            [Trigger ASKING_QUESTION_BROADCAST NoPayload s,
             Fetch \<lparr>url = conversationUrl c @ to_string (conversationId (conversation s)),
                    http_method = ''post'', headers = json_headers,
                    body = Some (JObj (requestBody c q s))\<rparr>,
             Trigger SERVER_ERROR_BROADCAST (ErrorPayload (Error (statusText resp))) s]))
   \<and> complete (on_GET_TOP_QUESTIONS c s) (Inr resp) =
     (if truthy (conversationId (conversation s)) \<and> \<not> truthy (topQuestions (conversation s))
      then (if status resp = 200
            then (fst (then_catch GET_TOP_QUESTIONS_data (json resp) s),
                  Fetch \<lparr>url = conversationUrl c @ to_string (conversationId (conversation s))
                                 @ ''/topQuestions'',
                         http_method = ''get'', headers = json_headers, body = None\<rparr>
                    # snd (then_catch GET_TOP_QUESTIONS_data (json resp) s))
            else (s,
                  [Fetch \<lparr>url = conversationUrl c @ to_string (conversationId (conversation s))
                                  @ ''/topQuestions'',
                          http_method = ''get'', headers = json_headers, body = None\<rparr>,
                   Trigger SERVER_ERROR_BROADCAST (ErrorPayload (Error (statusText resp))) s]))
      else (fst (on_GET_TOP_QUESTIONS c s), fst (snd (on_GET_TOP_QUESTIONS c s))))
   \<and> complete (on_NONE_OF_THE_ABOVE_CLICKED c s) (Inr resp) =
     (s,
      [Trigger NONE_OF_THE_ABOVE_CLICKED_BROADCAST NoPayload s,
       Fetch (feedback_request c
                (postData (messageId (conversation s)) ''NO_HELPFUL_REFINEMENTS'' s))]
        @ (if 200 \<le> status resp \<and> status resp < 300 then []
           else [Trigger SERVER_ERROR_BROADCAST (ErrorPayload (Error (statusText resp))) s]))
   \<and> complete (on_NEGATIVE_FEEDBACK_GIVEN c s) (Inr resp) =
     (s,
      [Trigger NEGATIVE_FEEDBACK_RECEIVED_BROADCAST NoPayload s,
       Fetch (feedback_request c (postData (messageId (conversation s)) ''UNHELPFUL'' s))]
        @ (if 200 \<le> status resp \<and> status resp < 300 then []
           else [Trigger SERVER_ERROR_BROADCAST (ErrorPayload (Error (statusText resp))) s]))
   \<and> complete (on_POSITIVE_FEEDBACK_GIVEN c s) (Inr resp) =
     (s,
      [Trigger POSITIVE_FEEDBACK_RECEIVED_BROADCAST NoPayload s,
       Fetch (feedback_request c (postData (messageId (conversation s)) ''HELPFUL'' s))]
        @ (if 200 \<le> status resp \<and> status resp < 300 then []
           else [Trigger SERVER_ERROR_BROADCAST (ErrorPayload (Error (statusText resp))) s]))
   \<and> complete (on_FORUM_BUTTON_PRESSED c v s) (Inr resp) =
     (s,
      [Fetch (feedback_request c
                (postData (if truthy v then v else messageId (conversation s))
                   ''FORUM_REDIRECT'' s))]
        @ (if 200 \<le> status resp \<and> status resp < 300 then []
           else [Trigger SERVER_ERROR_BROADCAST (ErrorPayload (Error (statusText resp))) s]))"
proof (intro conjI)
  show "complete (on_CONVERSATION_START c s) (Inr resp) =
     (if status resp = 200
      then (fst (then_catch CONVERSATION_START_data (json resp) s),
            Fetch \<lparr>url = conversationUrl c, http_method = ''post'', headers = json_headers,
                   body = None\<rparr>
              # snd (then_catch CONVERSATION_START_data (json resp) s))
      else (s,
            [Fetch \<lparr>url = conversationUrl c, http_method = ''post'', headers = json_headers,
                    body = None\<rparr>,
             Trigger SERVER_ERROR_BROADCAST (ErrorPayload (Error (statusText resp))) s]))"
    by (simp add: complete_def on_CONVERSATION_START_def chains_status)
next
  show "complete (on_ASK_QUESTION c q s) (Inr resp) =
     (if truthy (q_messageId q)
         \<and> truthy (cache_get (questionCache s) (to_string (q_messageId q)))
      then (fst (on_ASK_QUESTION c q s), fst (snd (on_ASK_QUESTION c q s)))
      else if status resp = 200
      then (fst (then_catch ASK_QUESTION_data (json resp) s),
            Trigger ASKING_QUESTION_BROADCAST NoPayload s
              # Fetch \<lparr>url = conversationUrl c @ to_string (conversationId (conversation s)),
                       http_method = ''post'', headers = json_headers,
                       body = Some (JObj (requestBody c q s))\<rparr>
              # snd (then_catch ASK_QUESTION_data (json resp) s))
      else (s,
            [Trigger ASKING_QUESTION_BROADCAST NoPayload s,
             Fetch \<lparr>url = conversationUrl c @ to_string (conversationId (conversation s)),
                    http_method = ''post'', headers = json_headers,
                    body = Some (JObj (requestBody c q s))\<rparr>,
             Trigger SERVER_ERROR_BROADCAST (ErrorPayload (Error (statusText resp))) s]))"
    by (simp add: complete_def on_ASK_QUESTION_def Let_def chains_status)
next
  show "complete (on_GET_TOP_QUESTIONS c s) (Inr resp) =
     (if truthy (conversationId (conversation s)) \<and> \<not> truthy (topQuestions (conversation s))
      then (if status resp = 200
            then (fst (then_catch GET_TOP_QUESTIONS_data (json resp) s),
                  Fetch \<lparr>url = conversationUrl c @ to_string (conversationId (conversation s))
                                 @ ''/topQuestions'',
                         http_method = ''get'', headers = json_headers, body = None\<rparr>
                    # snd (then_catch GET_TOP_QUESTIONS_data (json resp) s))
            else (s,
                  [Fetch \<lparr>url = conversationUrl c @ to_string (conversationId (conversation s))
                                  @ ''/topQuestions'',
                          http_method = ''get'', headers = json_headers, body = None\<rparr>,
                   Trigger SERVER_ERROR_BROADCAST (ErrorPayload (Error (statusText resp))) s]))
      else (fst (on_GET_TOP_QUESTIONS c s), fst (snd (on_GET_TOP_QUESTIONS c s))))"
    by (simp add: complete_def on_GET_TOP_QUESTIONS_def chains_status)
next
  show "complete (on_NONE_OF_THE_ABOVE_CLICKED c s) (Inr resp) =
     (s,
      [Trigger NONE_OF_THE_ABOVE_CLICKED_BROADCAST NoPayload s,
       Fetch (feedback_request c
                (postData (messageId (conversation s)) ''NO_HELPFUL_REFINEMENTS'' s))]
        @ (if 200 \<le> status resp \<and> status resp < 300 then []
           else [Trigger SERVER_ERROR_BROADCAST (ErrorPayload (Error (statusText resp))) s]))"
    by (simp add: complete_def on_NONE_OF_THE_ABOVE_CLICKED_def chains_status)
next
  show "complete (on_NEGATIVE_FEEDBACK_GIVEN c s) (Inr resp) =
     (s,
      [Trigger NEGATIVE_FEEDBACK_RECEIVED_BROADCAST NoPayload s,
       Fetch (feedback_request c (postData (messageId (conversation s)) ''UNHELPFUL'' s))]
        @ (if 200 \<le> status resp \<and> status resp < 300 then []
           else [Trigger SERVER_ERROR_BROADCAST (ErrorPayload (Error (statusText resp))) s]))"
    by (simp add: complete_def on_NEGATIVE_FEEDBACK_GIVEN_def chains_status)
next
  show "complete (on_POSITIVE_FEEDBACK_GIVEN c s) (Inr resp) =
     (s,
      [Trigger POSITIVE_FEEDBACK_RECEIVED_BROADCAST NoPayload s,
       Fetch (feedback_request c (postData (messageId (conversation s)) ''HELPFUL'' s))]
        @ (if 200 \<le> status resp \<and> status resp < 300 then []
           else [Trigger SERVER_ERROR_BROADCAST (ErrorPayload (Error (statusText resp))) s]))"
    by (simp add: complete_def on_POSITIVE_FEEDBACK_GIVEN_def chains_status)
next
  show "complete (on_FORUM_BUTTON_PRESSED c v s) (Inr resp) =
     (s,
      [Fetch (feedback_request c
                (postData (if truthy v then v else messageId (conversation s))
                   ''FORUM_REDIRECT'' s))]
        @ (if 200 \<le> status resp \<and> status resp < 300 then []
           else [Trigger SERVER_ERROR_BROADCAST (ErrorPayload (Error (statusText resp))) s]))"
    by (simp add: complete_def on_FORUM_BUTTON_PRESSED_def Let_def chains_status)
qed

theorem status_validation_witness:
  "complete (on_GET_TOP_QUESTIONS demo_constants demo_store_no_top) (Inr demo_not_found) =
     (demo_store_no_top,
      [Fetch \<lparr>url = ''/api/v1/conversation/c1/topQuestions'', http_method = ''get'',
              headers = json_headers, body = None\<rparr>,
       Trigger SERVER_ERROR_BROADCAST (ErrorPayload (Error ''Not Found'')) demo_store_no_top])
   \<and> complete (on_ASK_QUESTION demo_constants
                  \<lparr>q_messageId = JUndefined, q_message = JStr ''How?'', q_referrer = JUndefined\<rparr>
                  demo_store) (Inr demo_not_found) =
     (demo_store,
      [Trigger ASKING_QUESTION_BROADCAST NoPayload demo_store,
       Fetch \<lparr>url = ''/api/v1/conversation/c1'', http_method = ''post'',
              headers = json_headers, body = Some (JObj [(''message'', JStr ''How?'')])\<rparr>,
       Trigger SERVER_ERROR_BROADCAST (ErrorPayload (Error ''Not Found'')) demo_store])
   \<and> complete (on_FORUM_BUTTON_PRESSED demo_constants JUndefined demo_store)
        (Inr demo_not_found) =
     (demo_store,
      [Fetch \<lparr>url = ''/api/v1/feedback'', http_method = ''post'', headers = json_headers,
              body = Some (JObj [(''conversationId'', JStr ''c1''), (''messageId'', JStr ''m1''),
                                 (''action'', JStr ''FORUM_REDIRECT'')])\<rparr>,
       Trigger SERVER_ERROR_BROADCAST (ErrorPayload (Error ''Not Found'')) demo_store])"
proof -
  note a = status_validation
    [where resp = demo_not_found and c = demo_constants and s = demo_store_no_top]
  note b = status_validation
    [where resp = demo_not_found and c = demo_constants and s = demo_store
       and q = "\<lparr>q_messageId = JUndefined, q_message = JStr ''How?'', q_referrer = JUndefined\<rparr>"
       and v = JUndefined]
  have top: "complete (on_GET_TOP_QUESTIONS demo_constants demo_store_no_top)
      (Inr demo_not_found) =
     (demo_store_no_top,
      [Fetch \<lparr>url = ''/api/v1/conversation/c1/topQuestions'', http_method = ''get'',
              headers = json_headers, body = None\<rparr>,
       Trigger SERVER_ERROR_BROADCAST (ErrorPayload (Error ''Not Found'')) demo_store_no_top])"
    using a by (simp add: demo_not_found_def demo_constants_def)
       (simp add: demo_store_no_top_def)
  have ask: "complete (on_ASK_QUESTION demo_constants
                  \<lparr>q_messageId = JUndefined, q_message = JStr ''How?'', q_referrer = JUndefined\<rparr>
                  demo_store) (Inr demo_not_found) =
     (demo_store,
      [Trigger ASKING_QUESTION_BROADCAST NoPayload demo_store,
       Fetch \<lparr>url = ''/api/v1/conversation/c1'', http_method = ''post'',
              headers = json_headers, body = Some (JObj [(''message'', JStr ''How?'')])\<rparr>,
       Trigger SERVER_ERROR_BROADCAST (ErrorPayload (Error ''Not Found'')) demo_store])"
    using b by (simp add: demo_not_found_def demo_constants_def requestBody_def)
       (simp add: demo_store_def)
  have forum: "complete (on_FORUM_BUTTON_PRESSED demo_constants JUndefined demo_store)
        (Inr demo_not_found) =
     (demo_store,
      [Fetch \<lparr>url = ''/api/v1/feedback'', http_method = ''post'', headers = json_headers,
              body = Some (JObj [(''conversationId'', JStr ''c1''), (''messageId'', JStr ''m1''),
                                 (''action'', JStr ''FORUM_REDIRECT'')])\<rparr>,
       Trigger SERVER_ERROR_BROADCAST (ErrorPayload (Error ''Not Found'')) demo_store])"
    using b by (simp add: demo_not_found_def demo_constants_def feedback_request_def postData_def)
       (simp add: demo_store_def)
  from top ask forum show ?thesis by simp
qed

section \<open>Feedback\<close>

text \<open>
  C7. Each of \<^verbatim>\<open>NONE_OF_THE_ABOVE_CLICKED\<close>, \<^verbatim>\<open>NEGATIVE_FEEDBACK_GIVEN\<close> and
  \<^verbatim>\<open>POSITIVE_FEEDBACK_GIVEN\<close> triggers its broadcast inside the handler, before the
  feedback request is even issued; whatever the fetch settles to, the broadcast is the
  first event of the execution and what the chain does comes after the request.
\<close>

theorem feedback_broadcast_first:
  "(\<exists>rq. on_NONE_OF_THE_ABOVE_CLICKED c s =
           (s, [Trigger NONE_OF_THE_ABOVE_CLICKED_BROADCAST NoPayload s, Fetch rq],
            Some AwaitFeedback)
        \<and> snd (complete (on_NONE_OF_THE_ABOVE_CLICKED c s) r) =
            Trigger NONE_OF_THE_ABOVE_CLICKED_BROADCAST NoPayload s # Fetch rq
              # snd (feedback_response r s))
   \<and> (\<exists>rq. on_NEGATIVE_FEEDBACK_GIVEN c s =
           (s, [Trigger NEGATIVE_FEEDBACK_RECEIVED_BROADCAST NoPayload s, Fetch rq],
            Some AwaitFeedback)
        \<and> snd (complete (on_NEGATIVE_FEEDBACK_GIVEN c s) r) =
            Trigger NEGATIVE_FEEDBACK_RECEIVED_BROADCAST NoPayload s # Fetch rq
              # snd (feedback_response r s))
   \<and> (\<exists>rq. on_POSITIVE_FEEDBACK_GIVEN c s =
           (s, [Trigger POSITIVE_FEEDBACK_RECEIVED_BROADCAST NoPayload s, Fetch rq],
            Some AwaitFeedback)
        \<and> snd (complete (on_POSITIVE_FEEDBACK_GIVEN c s) r) =
            Trigger POSITIVE_FEEDBACK_RECEIVED_BROADCAST NoPayload s # Fetch rq
              # snd (feedback_response r s))"
  by (simp add: on_NONE_OF_THE_ABOVE_CLICKED_def on_NEGATIVE_FEEDBACK_GIVEN_def
      on_POSITIVE_FEEDBACK_GIVEN_def complete_def)

section \<open>SET_CURRENT_QUESTION\<close>

text \<open>
  When the test \<^verbatim>\<open>messageId && cachedMessage\<close> fails, as it does for a falsy
  \<^verbatim>\<open>messageId\<close>, the store is unchanged and nothing is triggered.
\<close>

lemma SET_CURRENT_QUESTION_miss:
  assumes "\<not> truthy (q_messageId q)
           \<or> \<not> truthy (cache_get (questionCache s) (to_string (q_messageId q)))"
  shows "on_SET_CURRENT_QUESTION q s = (s, [], None)"
  using assms by (auto simp add: on_SET_CURRENT_QUESTION_def Let_def)

lemma SET_CURRENT_QUESTION_absent:
  assumes "map_of (questionCache s) (to_string (q_messageId q)) = None"
    and "map_of (questionCache s) ''__proto__'' = None"
    and "to_string (q_messageId q) \<notin> set (''__proto__'' # Object_prototype_functions)"
  shows "on_SET_CURRENT_QUESTION q s = (s, [], None)"
  by (simp add: SET_CURRENT_QUESTION_miss cache_get_absent [OF assms])

text \<open>
  With a truthy \<^verbatim>\<open>messageId\<close> under which the store cached an entry, message,
  messageId and responses are overwritten from the payload and the entry, everything else
  is unchanged and nothing is triggered.
\<close>

lemma SET_CURRENT_QUESTION_cached:
  assumes "truthy (q_messageId q)"
    and "map_of (questionCache s) (to_string (q_messageId q)) = Some cm"
  shows "on_SET_CURRENT_QUESTION q s =
        (\<lparr>conversation =
            \<lparr>conversationId = conversationId (conversation s),
             message = cached_message cm,
             messageId = q_messageId q,
             responses = cached_responses cm,
             topQuestions = topQuestions (conversation s)\<rparr>,
          questionHistory = questionHistory s,
          questionCache = questionCache s,
          self_topQuestions = self_topQuestions s\<rparr>, [], None)"
  using assms
  by (simp add: on_SET_CURRENT_QUESTION_def Let_def cache_get_own entry_value_truthy recall_entry)

text \<open>
  C8. For every \<^verbatim>\<open>SET_CURRENT_QUESTION\<close> whose \<^verbatim>\<open>messageId\<close> is not in the cache,
  or falsy, the conversation, the cache and the history are unchanged and nothing is
  broadcast; with a cached \<^verbatim>\<open>messageId\<close> only message, messageId and responses are
  overwritten, and nothing is broadcast. The code does not do the first for a
  \<^verbatim>\<open>messageId\<close> that names a property every object inherits: in a store that cached
  \<^verbatim>\<open>m0\<close> and \<^verbatim>\<open>m1\<close> only, \<^verbatim>\<open>SET_CURRENT_QUESTION\<close> with
  \<^verbatim>\<open>{messageId: "toString"}\<close> finds the inherited function and overwrites the
  conversation's messageId with \<^verbatim>\<open>"toString"\<close> and its message and responses with
  \<^verbatim>\<open>undefined\<close>.
\<close>

theorem SET_CURRENT_QUESTION_inherited_name_overwrites:
  "map_of (questionCache demo_store) ''toString'' = None
   \<and> conversation demo_store =
       \<lparr>conversationId = JStr ''c1'', message = JStr ''hi'', messageId = JStr ''m1'',
        responses = JArr [JStr ''r1''], topQuestions = JArr [JStr ''q1'']\<rparr>
   \<and> on_SET_CURRENT_QUESTION
       \<lparr>q_messageId = JStr ''toString'', q_message = JUndefined, q_referrer = JUndefined\<rparr>
       demo_store
     = (\<lparr>conversation =
           \<lparr>conversationId = JStr ''c1'', message = JUndefined, messageId = JStr ''toString'',
            responses = JUndefined, topQuestions = JArr [JStr ''q1'']\<rparr>,
         questionHistory = questionHistory demo_store,
         questionCache = questionCache demo_store,
         self_topQuestions = JUndefined\<rparr>, [], None)"
  by (simp add: on_SET_CURRENT_QUESTION_def recall_def read_prop_def cache_get_def
      Object_prototype_get_def Object_prototype_functions_def native_function_def
      demo_store_def Let_def)

end
